theory Spec2Isabelle
  imports Main
begin

section \<open>Rentverse backend: the store, the environment and the responses\<close>

text \<open>
  The backend keeps all its state in a relational store reached through Prisma.  The
  handlers of \<^verbatim>\<open>routes/auth.js\<close>, \<^verbatim>\<open>routes/mfa.js\<close>, \<^verbatim>\<open>routes/lease.js\<close> and
  \<^verbatim>\<open>services/leases.service.js\<close> are embedded as functions that take the store and
  return a response together with the store they leave behind.

  Every Prisma call may throw.  Which calls throw during one request is a parameter of
  the model (\<open>throws\<close>), so that each \<^verbatim>\<open>try/catch\<close> of the source is a branch.
\<close>

datatype prisma_op =
    UserFindUnique | UserUpdate
  | ActivityLogCreate | ActivityLogCount | ActivityLogFindMany
  | NotificationCreate
  | LeaseFindUnique | LeaseUpdate

text \<open>
  The libraries the handlers call (express-validator, bcryptjs, speakeasy, jsonwebtoken)
  and the clock are not part of the repository; they are fields of the environment.
  \<open>now\<close> is \<^verbatim>\<open>Date.now()\<close> in milliseconds, read once per request.
  \<open>totp_verify secret token window\<close> is \<^verbatim>\<open>speakeasy.totp.verify\<close> with base32 encoding
  at the time of the request; \<open>jwt_sign userId email role\<close> is \<^verbatim>\<open>jwt.sign\<close> with the
  configured secret and expiry.
\<close>

record env =
  now :: int
  throws :: "prisma_op \<Rightarrow> bool"
  isEmail :: "string \<Rightarrow> bool"
  normalizeEmail :: "string \<Rightarrow> string"
  bcrypt_compare :: "string \<Rightarrow> string \<Rightarrow> bool"
  totp_verify :: "string \<Rightarrow> string \<Rightarrow> nat \<Rightarrow> bool"
  jwt_sign :: "string \<Rightarrow> string \<Rightarrow> string \<Rightarrow> string"
  toLocaleString :: "int \<Rightarrow> string"

record user =
  u_id :: string
  u_email :: string
  u_password :: string
  u_role :: string
  isActive :: bool
  mfaEnabled :: bool
  mfaSecret :: "string option"

record activityLog =
  l_userId :: string
  l_action :: string
  l_status :: string
  ipAddress :: string
  userAgent :: string
  details :: "(string \<times> string) list"
  createdAt :: int

record notification =
  n_userId :: string
  n_title :: string
  n_message :: string
  n_type :: string

record lease =
  tenantId :: string
  landlordId :: string
  tenantSignature :: "string option"
  landlordSignature :: "string option"
  tenantSignedAt :: "int option"
  landlordSignedAt :: "int option"
  signatureStatus :: string

text \<open>
  The tables.  \<open>activityLogs\<close> and \<open>notifications\<close> hold their rows newest first (a
  \<^verbatim>\<open>create\<close> puts the row in front); \<open>leases\<close> is keyed by the lease id.
\<close>

record db =
  users :: "user list"
  activityLogs :: "activityLog list"
  notifications :: "notification list"
  leases :: "string \<rightharpoonup> lease"

text \<open>
  A thrown JavaScript value.  \<open>message_of\<close> is its \<^verbatim>\<open>.message\<close>; the text of a Prisma
  error is not the repository's, it is fixed here to a text that is neither of the two
  messages the lease route compares with.
\<close>

datatype js_error = Error string | ReferenceError string | PrismaError prisma_op

fun message_of :: "js_error \<Rightarrow> string" where
  "message_of (Error m) = m"
| "message_of (ReferenceError n) = n @ '' is not defined''"
| "message_of (PrismaError _) = ''Invalid prisma invocation''"

text \<open>
  The user object a success response carries: the row without the fields the handler
  strips.  \<open>v_mfaSecret\<close> is \<open>None\<close> when the field was stripped or is null.
\<close>

record user_view =
  v_id :: string
  v_email :: string
  v_role :: string
  v_isActive :: bool
  v_mfaEnabled :: bool
  v_mfaSecret :: "string option"

datatype payload =
    Errors
  | Message bool string
  | MfaRequired string
  | LoginData user_view string
  | LeaseData lease

record response =
  code :: nat
  body :: payload

text \<open>The bearer token a response carries in \<^verbatim>\<open>data.token\<close>, if any.\<close>

fun token_of :: "response \<Rightarrow> string option" where
  "token_of r = (case body r of LoginData _ t \<Rightarrow> Some t | _ \<Rightarrow> None)"

text \<open>
  JavaScript truthiness of a value that is a string, \<^verbatim>\<open>null\<close> or \<^verbatim>\<open>undefined\<close>
  (\<open>None\<close>), and the operator \<^verbatim>\<open>||\<close> on such values.
\<close>

fun truthy :: "string option \<Rightarrow> bool" where
  "truthy None = False"
| "truthy (Some v) = (v \<noteq> [])"

definition js_or :: "string option \<Rightarrow> string option \<Rightarrow> string option" where
  "js_or a b = (if truthy a then a else b)"

section \<open>Lease signing (\<^verbatim>\<open>services/leases.service.js\<close>, \<^verbatim>\<open>routes/lease.js\<close>)\<close>

text \<open>
  \<^verbatim>\<open>signLease(leaseId, signature, userId)\<close>.  The signature is whatever the caller
  passes (\<open>None\<close> is \<^verbatim>\<open>null\<close>); \<^verbatim>\<open>new Date()\<close> is \<open>now\<close>.  The result is the updated
  row or the thrown error, and the store afterwards.
\<close>

definition signLease ::
  "env \<Rightarrow> db \<Rightarrow> string \<Rightarrow> string option \<Rightarrow> string \<Rightarrow> (js_error + lease) \<times> db" where
  "signLease E s leaseId signature userId =
    (if throws E LeaseFindUnique then (Inl (PrismaError LeaseFindUnique), s)
     else case leases s leaseId of
       None \<Rightarrow> (Inl (Error ''Lease not found''), s)
     | Some lease \<Rightarrow>
        (let isTenant = (tenantId lease = userId);
             isLandlord = (landlordId lease = userId)
         in if \<not> isTenant \<and> \<not> isLandlord then (Inl (Error ''UNAUTHORIZED''), s)
            else
             (let currentTenantSigned = (tenantSignature lease \<noteq> None);
                  currentLandlordSigned = (landlordSignature lease \<noteq> None);
                  newTenantSigned = (if isTenant then True else currentTenantSigned);
                  newLandlordSigned = (if isLandlord then True else currentLandlordSigned);
                  newStatus =
                    (if newTenantSigned \<and> newLandlordSigned then ''FULLY_SIGNED''
                     else if newTenantSigned then ''TENANT_SIGNED''
                     else if newLandlordSigned then ''LANDLORD_SIGNED''
                     else ''PENDING'')
              in if throws E LeaseUpdate then (Inl (PrismaError LeaseUpdate), s)
                 else
                  (let updated = lease
                        \<lparr> tenantSignature :=
                            (if isTenant then signature else tenantSignature lease),
                          landlordSignature :=
                            (if isLandlord then signature else landlordSignature lease),
                          tenantSignedAt :=
                            (if isTenant then Some (now E) else tenantSignedAt lease),
                          landlordSignedAt :=
                            (if isLandlord then Some (now E) else landlordSignedAt lease),
                          signatureStatus := newStatus \<rparr>
                   in (Inr updated, s\<lparr>leases := (leases s)(leaseId \<mapsto> updated)\<rparr>)))))"

text \<open>
  \<^verbatim>\<open>POST /:id/sign\<close>, after the \<^verbatim>\<open>auth\<close> middleware has set \<^verbatim>\<open>req.user\<close>:
  \<open>leaseId\<close> is \<^verbatim>\<open>req.params.id\<close>, \<open>signature\<close> is \<^verbatim>\<open>req.body.signature\<close> and \<open>userId\<close>
  is \<^verbatim>\<open>req.user.id\<close>.
\<close>

definition sign_route :: "env \<Rightarrow> db \<Rightarrow> string \<Rightarrow> string option \<Rightarrow> string \<Rightarrow> response \<times> db" where
  "sign_route E s leaseId signature userId =
    (if \<not> truthy signature
     then (\<lparr>code = 400, body = Message False ''Signature is required''\<rparr>, s)
     else case signLease E s leaseId signature userId of
       (Inr result, s') \<Rightarrow> (\<lparr>code = 200, body = LeaseData result\<rparr>, s')
     | (Inl error, s') \<Rightarrow>
         if message_of error = ''Lease not found''
         then (\<lparr>code = 404, body = Message False ''Lease not found''\<rparr>, s')
         else if message_of error = ''UNAUTHORIZED''
         then (\<lparr>code = 403, body = Message False ''You are not authorized to sign this lease''\<rparr>, s')
         else (\<lparr>code = 500, body = Message False ''Internal Server Error''\<rparr>, s'))"

text \<open>
  The rule of the data model, written from its words: the status that a pair
  (tenant has signed, landlord has signed) determines.
\<close>

fun status_of_signatures :: "bool \<Rightarrow> bool \<Rightarrow> string" where
  "status_of_signatures True True = ''FULLY_SIGNED''"
| "status_of_signatures True False = ''TENANT_SIGNED''"
| "status_of_signatures False True = ''LANDLORD_SIGNED''"
| "status_of_signatures False False = ''PENDING''"

section \<open>Activity log and lockout (\<^verbatim>\<open>routes/auth.js\<close>, helpers)\<close>

text \<open>
  What a handler reads of the request.  A body field or header that is absent is \<open>None\<close>;
  \<open>req_ip\<close> is \<^verbatim>\<open>req.ip\<close>, \<open>x_forwarded_for\<close> and \<open>user_agent\<close> are the headers of those
  names, \<open>remoteAddress\<close> is \<^verbatim>\<open>req.socket.remoteAddress\<close>.
\<close>

record request =
  body_email :: "string option"
  body_password :: "string option"
  body_userId :: "string option"
  body_token :: "string option"
  req_ip :: "string option"
  x_forwarded_for :: "string option"
  remoteAddress :: "string option"
  user_agent :: "string option"

text \<open>
  \<^verbatim>\<open>String.prototype.includes\<close> and \<^verbatim>\<open>String.prototype.replace\<close> with a string pattern
  (the first occurrence only), as \<^verbatim>\<open>logActivity\<close> uses them.
\<close>

fun startsWith :: "string \<Rightarrow> string \<Rightarrow> bool" where
  "startsWith cs [] = True"
| "startsWith [] (p # ps) = False"
| "startsWith (c # cs) (p # ps) = (c = p \<and> startsWith cs ps)"

fun js_includes :: "string \<Rightarrow> string \<Rightarrow> bool" where
  "js_includes [] pat = (pat = [])"
| "js_includes (c # cs) pat = (startsWith (c # cs) pat \<or> js_includes cs pat)"

fun js_replace :: "string \<Rightarrow> string \<Rightarrow> string \<Rightarrow> string" where
  "js_replace [] pat rep = (if pat = [] then rep else [])"
| "js_replace (c # cs) pat rep =
     (if startsWith (c # cs) pat then rep @ drop (length pat) (c # cs)
      else c # js_replace cs pat rep)"

text \<open>\<^verbatim>\<open>a || d\<close> where \<open>d\<close> is a non-empty string literal.\<close>

fun or_else :: "string option \<Rightarrow> string \<Rightarrow> string" where
  "or_else None d = d"
| "or_else (Some v) d = (if v = [] then d else v)"

text \<open>
  \<^verbatim>\<open>logActivity(userId, fullAction, req, details)\<close>: the whole body is inside
  \<^verbatim>\<open>try/catch\<close>, so a failing \<^verbatim>\<open>create\<close> leaves the store as it was and nothing is
  thrown.  The row's \<open>createdAt\<close> is the time of the write.
\<close>

definition logActivity ::
  "env \<Rightarrow> db \<Rightarrow> string \<Rightarrow> string \<Rightarrow> request \<Rightarrow> (string \<times> string) list \<Rightarrow> db" where
  "logActivity E s userId fullAction req dets =
    (let (action, status) =
           (if js_includes fullAction ''_SUCCESS''
            then (js_replace fullAction ''_SUCCESS'' [], ''SUCCESS'')
            else if js_includes fullAction ''_FAILED''
            then (js_replace fullAction ''_FAILED'' [], ''FAILURE'')
            else (fullAction, ''INFO''));
         ip = or_else (js_or (js_or (req_ip req) (x_forwarded_for req)) (remoteAddress req))
                ''0.0.0.0''
     in if throws E ActivityLogCreate then s
        else s\<lparr>activityLogs :=
               \<lparr> l_userId = userId, l_action = action, l_status = status,
                 ipAddress = ip, userAgent = or_else (user_agent req) ''Unknown'',
                 details = dets, createdAt = now E \<rparr> # activityLogs s\<rparr>)"

text \<open>
  \<^verbatim>\<open>isAccountLocked(userId)\<close>.  \<open>failedLogins\<close> is the result of its
  \<^verbatim>\<open>prisma.activityLog.count\<close>: the FAILURE rows of action LOGIN of the user, not older
  than 15 minutes.
\<close>

definition failedLogins :: "env \<Rightarrow> db \<Rightarrow> string \<Rightarrow> nat" where
  "failedLogins E s userId =
     length (filter (\<lambda>l. l_userId l = userId \<and> l_action l = ''LOGIN'' \<and> l_status l = ''FAILURE''
                          \<and> now E - 15 * 60 * 1000 \<le> createdAt l) (activityLogs s))"

definition isAccountLocked :: "env \<Rightarrow> db \<Rightarrow> string \<Rightarrow> bool" where
  "isAccountLocked E s userId =
     (if throws E ActivityLogCount then False
      else if 5 \<le> failedLogins E s userId then True else False)"

section \<open>Password login (\<^verbatim>\<open>POST /login\<close>)\<close>

text \<open>
  The \<^verbatim>\<open>findMany\<close> of the new-device check: successful LOGIN rows of the user from the
  last 30 days, newest first, at most 20.  Rows of equal \<open>createdAt\<close> keep the order of
  the table (newest first); the database itself leaves that order open.
\<close>

definition recentLogins :: "env \<Rightarrow> db \<Rightarrow> string \<Rightarrow> activityLog list" where
  "recentLogins E s userId =
     take 20 (sort_key (\<lambda>l. - createdAt l)
       (filter (\<lambda>l. l_userId l = userId \<and> l_action l = ''LOGIN'' \<and> l_status l = ''SUCCESS''
                     \<and> now E - 30 * 24 * 60 * 60 * 1000 \<le> createdAt l) (activityLogs s)))"

definition currentIp :: "request \<Rightarrow> string option" where
  "currentIp req = js_or (js_or (req_ip req) (x_forwarded_for req)) (remoteAddress req)"

definition previousHistory :: "env \<Rightarrow> db \<Rightarrow> string \<Rightarrow> activityLog list" where
  "previousHistory E s userId = drop 1 (recentLogins E s userId)"

definition isNewDevice :: "env \<Rightarrow> db \<Rightarrow> string \<Rightarrow> request \<Rightarrow> bool" where
  "isNewDevice E s userId req =
     (\<not> list_ex (\<lambda>log. Some (userAgent log) = user_agent req) (previousHistory E s userId))"

definition isNewIp :: "env \<Rightarrow> db \<Rightarrow> string \<Rightarrow> request \<Rightarrow> bool" where
  "isNewIp E s userId req =
     (\<not> list_ex (\<lambda>log. Some (ipAddress log) = currentIp req) (previousHistory E s userId))"

definition securityAlert :: "env \<Rightarrow> user \<Rightarrow> request \<Rightarrow> bool \<Rightarrow> notification" where
  "securityAlert E user req newDevice =
     \<lparr> n_userId = u_id user,
       n_title = ''Security Alert: New Sign-in'',
       n_message = ''We detected a login from a new ''
          @ (if newDevice then ''device'' else ''IP address'')
          @ ''.'' @ [CHR 0x0A] @ ''IP: ''
          @ (case currentIp req of None \<Rightarrow> ''undefined'' | Some i \<Rightarrow> i)
          @ [CHR 0x0A] @ ''Time: '' @ toLocaleString E (now E),
       n_type = ''security'' \<rparr>"

text \<open>
  The block the handler runs after a successful password check, inside its own
  \<^verbatim>\<open>try/catch\<close>: a throw of the read or of the notification write ends the block and
  nothing else.
\<close>

definition zeroTrust :: "env \<Rightarrow> db \<Rightarrow> user \<Rightarrow> request \<Rightarrow> db" where
  "zeroTrust E s user req =
    (if throws E ActivityLogFindMany then s
     else if isNewDevice E s (u_id user) req \<or> isNewIp E s (u_id user) req
     then (if throws E NotificationCreate then s
           else s\<lparr>notifications :=
                  securityAlert E user req (isNewDevice E s (u_id user) req) # notifications s\<rparr>)
     else s)"

definition withoutPassword :: "user \<Rightarrow> user_view" where
  "withoutPassword u =
     \<lparr> v_id = u_id u, v_email = u_email u, v_role = u_role u, v_isActive = isActive u,
       v_mfaEnabled = mfaEnabled u, v_mfaSecret = mfaSecret u \<rparr>"

definition invalidCredentials :: response where
  "invalidCredentials = \<lparr>code = 401, body = Message False ''Invalid credentials''\<rparr>"

definition accountLocked :: response where
  "accountLocked = \<lparr>code = 423, body = Message False
     ''Account temporarily locked due to repeated failed login attempts. Please try again in 15 minutes.''\<rparr>"

definition internalServerError :: response where
  "internalServerError = \<lparr>code = 500, body = Message False ''Internal server error''\<rparr>"

text \<open>
  The handler of \<^verbatim>\<open>POST /login\<close>.  The validation chain is
  \<^verbatim>\<open>body('email').isEmail().normalizeEmail()\<close>, \<^verbatim>\<open>body('password').notEmpty()\<close>.
\<close>

definition login :: "env \<Rightarrow> db \<Rightarrow> request \<Rightarrow> response \<times> db" where
  "login E s req =
    (case (body_email req, body_password req) of
       (Some e, Some password) \<Rightarrow>
         if \<not> isEmail E e \<or> password = [] then (\<lparr>code = 400, body = Errors\<rparr>, s)
         else if throws E UserFindUnique then (internalServerError, s)
         else
          (case find (\<lambda>u. u_email u = normalizeEmail E e) (users s) of
             None \<Rightarrow> (invalidCredentials, s)
           | Some user \<Rightarrow>
              if \<not> isActive user then (invalidCredentials, s)
              else if isAccountLocked E s (u_id user)
              then (accountLocked,
                    logActivity E s (u_id user) ''LOGIN_BLOCKED'' req
                      [(''reason'', ''account_locked'')])
              else if \<not> bcrypt_compare E password (u_password user)
              then (invalidCredentials,
                    logActivity E s (u_id user) ''LOGIN_FAILED'' req
                      [(''reason'', ''wrong_password'')])
              else
               (let s1 = logActivity E s (u_id user) ''LOGIN_SUCCESS'' req [];
                    s2 = zeroTrust E s1 user req
                in if mfaEnabled user
                   then (\<lparr>code = 200, body = MfaRequired (u_id user)\<rparr>, s2)
                   else (\<lparr>code = 200,
                          body = LoginData (withoutPassword user)
                                   (jwt_sign E (u_id user) (u_email user) (u_role user))\<rparr>, s2)))
     | _ \<Rightarrow> (\<lparr>code = 400, body = Errors\<rparr>, s))"

section \<open>Multi-factor authentication\<close>

definition safeUser :: "user \<Rightarrow> user_view" where
  "safeUser u =
     \<lparr> v_id = u_id u, v_email = u_email u, v_role = u_role u, v_isActive = isActive u,
       v_mfaEnabled = mfaEnabled u, v_mfaSecret = None \<rparr>"

text \<open>
  \<^verbatim>\<open>speakeasy.totp.verify({ secret, encoding: 'base32', token, window })\<close> on values that
  may be absent.  The handlers call it only after both were found truthy.
\<close>

fun speakeasy_verify :: "env \<Rightarrow> string option \<Rightarrow> string option \<Rightarrow> nat \<Rightarrow> bool" where
  "speakeasy_verify E (Some secret) (Some token) window = totp_verify E secret token window"
| "speakeasy_verify E _ _ window = False"

text \<open>\<^verbatim>\<open>POST /mfa/login\<close> of \<^verbatim>\<open>routes/auth.js\<close>: it reads the user table only.\<close>

definition mfa_login :: "env \<Rightarrow> db \<Rightarrow> request \<Rightarrow> response" where
  "mfa_login E s req =
    (if \<not> truthy (body_userId req) \<or> \<not> truthy (body_token req)
     then \<lparr>code = 400, body = Message False ''userId and token are required''\<rparr>
     else if throws E UserFindUnique then internalServerError
     else
      (case find (\<lambda>u. Some (u_id u) = body_userId req) (users s) of
         None \<Rightarrow> \<lparr>code = 400, body = Message False ''MFA not configured for this user''\<rparr>
       | Some user \<Rightarrow>
          if \<not> mfaEnabled user \<or> \<not> truthy (mfaSecret user)
          then \<lparr>code = 400, body = Message False ''MFA not configured for this user''\<rparr>
          else if \<not> speakeasy_verify E (mfaSecret user) (body_token req) 2
          then \<lparr>code = 401, body = Message False ''Invalid or expired MFA code''\<rparr>
          else \<lparr>code = 200,
                 body = LoginData (safeUser user)
                          (jwt_sign E (u_id user) (u_email user) (u_role user))\<rparr>))"

text \<open>
  \<^verbatim>\<open>prisma.user.update({ where: { id }, data: { mfaEnabled: true } })\<close> on the table.
\<close>

definition enableMfa :: "string \<Rightarrow> user list \<Rightarrow> user list" where
  "enableMfa userId us = map (\<lambda>u. if u_id u = userId then u\<lparr>mfaEnabled := True\<rparr> else u) us"

text \<open>
  \<^verbatim>\<open>POST /mfa/verify\<close> of \<^verbatim>\<open>routes/auth.js\<close>, after the \<^verbatim>\<open>auth\<close> middleware:
  \<open>userId\<close> is \<^verbatim>\<open>req.user.id\<close>, the code is \<^verbatim>\<open>req.body.token\<close>.  The window is 2 steps.
\<close>

definition mfa_verify :: "env \<Rightarrow> db \<Rightarrow> string \<Rightarrow> request \<Rightarrow> response \<times> db" where
  "mfa_verify E s userId req =
    (case body_token req of
       None \<Rightarrow> (\<lparr>code = 400, body = Message False ''Please provide a valid 6-digit code''\<rparr>, s)
     | Some token \<Rightarrow>
        if token = [] \<or> length token \<noteq> 6
        then (\<lparr>code = 400, body = Message False ''Please provide a valid 6-digit code''\<rparr>, s)
        else if throws E UserFindUnique
        then (\<lparr>code = 500, body = Message False ''Verification failed. Please try again later.''\<rparr>, s)
        else
         (case find (\<lambda>u. u_id u = userId) (users s) of
            None \<Rightarrow> (\<lparr>code = 400, body = Message False
                        ''MFA setup not completed. Please generate a new QR code.''\<rparr>, s)
          | Some user \<Rightarrow>
             if \<not> truthy (mfaSecret user)
             then (\<lparr>code = 400, body = Message False
                        ''MFA setup not completed. Please generate a new QR code.''\<rparr>, s)
             else if speakeasy_verify E (mfaSecret user) (Some token) 2
             then (if throws E UserUpdate
                   then (\<lparr>code = 500, body = Message False
                            ''Verification failed. Please try again later.''\<rparr>, s)
                   else (\<lparr>code = 200, body = Message True
                            ''Two-Factor Authentication enabled successfully!''\<rparr>,
                         s\<lparr>users := enableMfa userId (users s)\<rparr>))
             else (\<lparr>code = 400, body = Message False
                        ''Invalid or expired code. Please try again.''\<rparr>, s)))"

text \<open>
  \<^verbatim>\<open>routes/mfa.js\<close> has a second handler for the same operation, with a window of 6
  steps.  Between the verification and the update it calls \<^verbatim>\<open>logActivity\<close>, a name that
  module neither defines nor imports: evaluating the call throws a ReferenceError, which
  the handler's \<^verbatim>\<open>catch\<close> turns into the 500 response.  (The dash in the last message
  is a character outside ASCII in the source.)
\<close>

definition mfa_js_logActivity :: "js_error + unit" where
  "mfa_js_logActivity = Inl (ReferenceError ''logActivity'')"

definition mfa_js_verify :: "env \<Rightarrow> db \<Rightarrow> string \<Rightarrow> request \<Rightarrow> response \<times> db" where
  "mfa_js_verify E s userId req =
    (case body_token req of
       None \<Rightarrow> (\<lparr>code = 400, body = Message False ''Enter a valid 6-digit code''\<rparr>, s)
     | Some token \<Rightarrow>
        if token = [] \<or> length token \<noteq> 6
        then (\<lparr>code = 400, body = Message False ''Enter a valid 6-digit code''\<rparr>, s)
        else if throws E UserFindUnique
        then (\<lparr>code = 500, body = Message False ''Server error during verification''\<rparr>, s)
        else
         (case find (\<lambda>u. u_id u = userId) (users s) of
            None \<Rightarrow> (\<lparr>code = 400, body = Message False
                        ''MFA setup not completed. Generate a new QR code.''\<rparr>, s)
          | Some user \<Rightarrow>
             if \<not> truthy (mfaSecret user)
             then (\<lparr>code = 400, body = Message False
                        ''MFA setup not completed. Generate a new QR code.''\<rparr>, s)
             else
              (let verified = speakeasy_verify E (mfaSecret user) (Some token) 6 in
               case mfa_js_logActivity of
                 Inl error \<Rightarrow>
                   (\<lparr>code = 500, body = Message False ''Server error during verification''\<rparr>, s)
               | Inr _ \<Rightarrow>
                   if verified
                   then (if throws E UserUpdate
                         then (\<lparr>code = 500, body = Message False
                                  ''Server error during verification''\<rparr>, s)
                         else (\<lparr>code = 200, body = Message True ''MFA enabled successfully!''\<rparr>,
                               s\<lparr>users := enableMfa userId (users s)\<rparr>))
                   else (\<lparr>code = 400, body = Message False
                            ''Invalid code - try again or sync your device time''\<rparr>, s))))"

section \<open>OAuth callbacks (\<^verbatim>\<open>routes/auth.js\<close>)\<close>

text \<open>
  The handlers of \<^verbatim>\<open>GET /google/callback\<close>, \<^verbatim>\<open>/facebook/callback\<close>,
  \<^verbatim>\<open>/github/callback\<close> and \<^verbatim>\<open>/twitter/callback\<close> differ in the provider's name only.
  \<^verbatim>\<open>passport.authenticate\<close> runs first and sets \<^verbatim>\<open>req.user\<close> to the user the provider
  authenticated, or leaves it unset (\<open>None\<close>).  The answer is a redirect to the front
  end: \<open>frontendUrl\<close> is \<^verbatim>\<open>process.env.FRONTEND_URL || 'http://localhost:3000'\<close>, and the
  query string is kept as its list of parameters.  \<^verbatim>\<open>POST /apple\<close> is not embedded: it
  calls \<^verbatim>\<open>handleAppleSignIn\<close>, a name the module neither defines nor imports.
\<close>

datatype redirect = Redirect string "(string \<times> string) list"

definition oauth_callback :: "env \<Rightarrow> string \<Rightarrow> string \<Rightarrow> user option \<Rightarrow> redirect" where
  "oauth_callback E frontendUrl provider req_user =
    (case req_user of
       None \<Rightarrow> Redirect (frontendUrl @ ''/login'') [(''error'', ''oauth_failed'')]
     | Some u \<Rightarrow>
         Redirect (frontendUrl @ ''/auth/callback'')
           [(''token'', jwt_sign E (u_id u) (u_email u) (u_role u)), (''provider'', provider)])"

text \<open>The bearer token a redirect hands to the front end, if any.\<close>

fun redirect_token :: "redirect \<Rightarrow> string option" where
  "redirect_token (Redirect url query) = map_of query ''token''"

section \<open>Concrete stores and requests\<close>

text \<open>
  An environment in which no Prisma call throws, with simple stand-ins for the libraries:
  a password hash is the password behind \<open>hash:\<close>, and the only code that verifies is
  \<open>123456\<close> against the secret \<open>JBSWY3DP\<close>.
\<close>

definition env0 :: env where
  "env0 = \<lparr> now = 1000000000,
            throws = (\<lambda>_. False),
            isEmail = (\<lambda>e. CHR ''@'' \<in> set e),
            normalizeEmail = (\<lambda>e. e),
            bcrypt_compare = (\<lambda>p h. h = ''hash:'' @ p),
            totp_verify = (\<lambda>secret token w. secret = ''JBSWY3DP'' \<and> token = ''123456''),
            jwt_sign = (\<lambda>userId e r. ''jwt:'' @ userId),
            toLocaleString = (\<lambda>t. ''today'') \<rparr>"

definition alice :: user where
  "alice = \<lparr> u_id = ''u1'', u_email = ''alice@example.com'', u_password = ''hash:secret'',
             u_role = ''USER'', isActive = True, mfaEnabled = False, mfaSecret = None \<rparr>"

definition bob :: user where
  "bob = \<lparr> u_id = ''u2'', u_email = ''bob@example.com'', u_password = ''hash:hunter2'',
           u_role = ''USER'', isActive = True, mfaEnabled = True, mfaSecret = Some ''JBSWY3DP'' \<rparr>"

definition carol :: user where
  "carol = \<lparr> u_id = ''u3'', u_email = ''carol@example.com'', u_password = ''hash:pw'',
             u_role = ''USER'', isActive = False, mfaEnabled = True, mfaSecret = Some ''JBSWY3DP'' \<rparr>"

definition dave :: user where
  "dave = \<lparr> u_id = ''u4'', u_email = ''dave@example.com'', u_password = ''hash:dave'',
            u_role = ''USER'', isActive = True, mfaEnabled = False, mfaSecret = Some ''JBSWY3DP'' \<rparr>"

definition lease0 :: lease where
  "lease0 = \<lparr> tenantId = ''u1'', landlordId = ''u2'',
              tenantSignature = None, landlordSignature = None,
              tenantSignedAt = None, landlordSignedAt = None,
              signatureStatus = ''PENDING'' \<rparr>"

definition store0 :: db where
  "store0 = \<lparr> users = [alice, bob, carol, dave], activityLogs = [], notifications = [],
              leases = [''lease-1'' \<mapsto> lease0] \<rparr>"

text \<open>A store in which a user has five wrong-password rows within the last 15 minutes.\<close>

definition failedAttempt :: "string \<Rightarrow> int \<Rightarrow> activityLog" where
  "failedAttempt userId t =
     \<lparr> l_userId = userId, l_action = ''LOGIN'', l_status = ''FAILURE'',
       ipAddress = ''203.0.113.7'', userAgent = ''curl/8.0'',
       details = [(''reason'', ''wrong_password'')], createdAt = t \<rparr>"

definition lockedStore :: "string \<Rightarrow> db" where
  "lockedStore userId =
     store0\<lparr>activityLogs :=
       map (failedAttempt userId) [999999000, 999998000, 999997000, 999996000, 999995000]\<rparr>"



definition loginRequest :: "string \<Rightarrow> string \<Rightarrow> request" where
  "loginRequest e p =
     \<lparr> body_email = Some e, body_password = Some p, body_userId = None, body_token = None,
       req_ip = Some ''198.51.100.4'', x_forwarded_for = None, remoteAddress = None,
       user_agent = Some ''Mozilla/5.0'' \<rparr>"

definition mfaRequest :: "string \<Rightarrow> string \<Rightarrow> request" where
  "mfaRequest userId token =
     \<lparr> body_email = None, body_password = None, body_userId = Some userId,
       body_token = Some token,
       req_ip = Some ''198.51.100.4'', x_forwarded_for = None, remoteAddress = None,
       user_agent = Some ''Mozilla/5.0'' \<rparr>"



text \<open>The same environment with every call of the monitoring side channel throwing.\<close>

definition env_monitoring_down :: env where
  "env_monitoring_down =
     env0\<lparr>throws := (\<lambda>op. op = ActivityLogCreate \<or> op = ActivityLogCount \<or>
                            op = ActivityLogFindMany \<or> op = NotificationCreate)\<rparr>"

section \<open>Lease signing: what the code guarantees\<close>

subsection \<open>The branches of \<open>signLease\<close> and of the route, one equation each\<close>

lemma signLease_find_throws:
  "throws E LeaseFindUnique \<Longrightarrow>
   signLease E s leaseId signature userId = (Inl (PrismaError LeaseFindUnique), s)"
  by (simp add: signLease_def)

lemma signLease_missing:
  "\<not> throws E LeaseFindUnique \<Longrightarrow> leases s leaseId = None \<Longrightarrow>
   signLease E s leaseId signature userId = (Inl (Error ''Lease not found''), s)"
  by (simp add: signLease_def)

lemma signLease_stranger:
  "\<not> throws E LeaseFindUnique \<Longrightarrow> leases s leaseId = Some l0 \<Longrightarrow>
   tenantId l0 \<noteq> userId \<Longrightarrow> landlordId l0 \<noteq> userId \<Longrightarrow>
   signLease E s leaseId signature userId = (Inl (Error ''UNAUTHORIZED''), s)"
  by (simp add: signLease_def)

lemma signLease_update_throws:
  "\<not> throws E LeaseFindUnique \<Longrightarrow> leases s leaseId = Some l0 \<Longrightarrow>
   tenantId l0 = userId \<or> landlordId l0 = userId \<Longrightarrow> throws E LeaseUpdate \<Longrightarrow>
   signLease E s leaseId signature userId = (Inl (PrismaError LeaseUpdate), s)"
  by (simp add: signLease_def Let_def)

lemma signLease_found:
  assumes "\<not> throws E LeaseFindUnique" and "leases s leaseId = Some l0"
    and "tenantId l0 = userId \<or> landlordId l0 = userId" and "\<not> throws E LeaseUpdate"
  shows "signLease E s leaseId signature userId =
     (Inr (l0\<lparr> tenantSignature := (if tenantId l0 = userId then signature else tenantSignature l0),
                      landlordSignature := (if landlordId l0 = userId then signature else landlordSignature l0),
                      tenantSignedAt := (if tenantId l0 = userId then Some (now E) else tenantSignedAt l0),
                      landlordSignedAt := (if landlordId l0 = userId then Some (now E) else landlordSignedAt l0),
                      signatureStatus := status_of_signatures
                         (tenantId l0 = userId \<or> tenantSignature l0 \<noteq> None)
                         (landlordId l0 = userId \<or> landlordSignature l0 \<noteq> None) \<rparr>),
      s\<lparr>leases := (leases s)(leaseId \<mapsto>
          l0\<lparr> tenantSignature := (if tenantId l0 = userId then signature else tenantSignature l0),
                      landlordSignature := (if landlordId l0 = userId then signature else landlordSignature l0),
                      tenantSignedAt := (if tenantId l0 = userId then Some (now E) else tenantSignedAt l0),
                      landlordSignedAt := (if landlordId l0 = userId then Some (now E) else landlordSignedAt l0),
                      signatureStatus := status_of_signatures
                         (tenantId l0 = userId \<or> tenantSignature l0 \<noteq> None)
                         (landlordId l0 = userId \<or> landlordSignature l0 \<noteq> None) \<rparr>)\<rparr>)"
proof -
  have st: "(if (if tenantId l0 = userId then True else tenantSignature l0 \<noteq> None) \<and>
                 (if landlordId l0 = userId then True else landlordSignature l0 \<noteq> None)
              then ''FULLY_SIGNED''
              else if (if tenantId l0 = userId then True else tenantSignature l0 \<noteq> None)
              then ''TENANT_SIGNED''
              else if (if landlordId l0 = userId then True else landlordSignature l0 \<noteq> None)
              then ''LANDLORD_SIGNED'' else ''PENDING'')
        = status_of_signatures
                         (tenantId l0 = userId \<or> tenantSignature l0 \<noteq> None)
                         (landlordId l0 = userId \<or> landlordSignature l0 \<noteq> None)"
    by (cases "tenantId l0 = userId \<or> tenantSignature l0 \<noteq> None";
        cases "landlordId l0 = userId \<or> landlordSignature l0 \<noteq> None") auto
  show ?thesis
    unfolding signLease_def Let_def using assms st by simp
qed


lemma signLease_Inr:
  assumes a: "signLease E s leaseId signature userId = (Inr l, s')"
  shows "\<exists>l0. leases s leaseId = Some l0 \<and> \<not> throws E LeaseFindUnique \<and> \<not> throws E LeaseUpdate
          \<and> (tenantId l0 = userId \<or> landlordId l0 = userId)"
proof (cases "throws E LeaseFindUnique")
  case True
  from signLease_find_throws[OF True, of s leaseId signature userId] a show ?thesis by simp
next
  case nf: False
  show ?thesis
  proof (cases "leases s leaseId")
    case None
    from signLease_missing[OF nf None, of signature userId] a show ?thesis by simp
  next
    case (Some l0)
    show ?thesis
    proof (cases "tenantId l0 = userId \<or> landlordId l0 = userId")
      case False
      with signLease_stranger[OF nf Some, of userId signature] a show ?thesis by simp
    next
      case party: True
      show ?thesis
      proof (cases "throws E LeaseUpdate")
        case True
        from signLease_update_throws[OF nf Some party True, of signature] a show ?thesis by simp
      next
        case False
        with nf Some party show ?thesis by simp
      qed
    qed
  qed
qed

lemma signLease_Inl_store:
  assumes a: "signLease E s leaseId signature userId = (Inl e, s')"
  shows "s' = s"
proof (cases "throws E LeaseFindUnique")
  case True
  from signLease_find_throws[OF True, of s leaseId signature userId] a show ?thesis by simp
next
  case nf: False
  show ?thesis
  proof (cases "leases s leaseId")
    case None
    from signLease_missing[OF nf None, of signature userId] a show ?thesis by simp
  next
    case (Some l0)
    show ?thesis
    proof (cases "tenantId l0 = userId \<or> landlordId l0 = userId")
      case False
      with signLease_stranger[OF nf Some, of userId signature] a show ?thesis by simp
    next
      case party: True
      show ?thesis
      proof (cases "throws E LeaseUpdate")
        case True
        from signLease_update_throws[OF nf Some party True, of signature] a show ?thesis by simp
      next
        case False
        from signLease_found[OF nf Some party False, of signature] a show ?thesis by simp
      qed
    qed
  qed
qed

lemma status_of_written:
  assumes "signLease E s leaseId (Some sg) userId = (Inr l, s')"
  shows "leases s' leaseId = Some l \<and>
      signatureStatus l =
        status_of_signatures (tenantSignature l \<noteq> None) (landlordSignature l \<noteq> None)"
proof -
  from signLease_Inr[OF assms] obtain l0 where
    l0: "leases s leaseId = Some l0" "\<not> throws E LeaseFindUnique" "\<not> throws E LeaseUpdate"
        "tenantId l0 = userId \<or> landlordId l0 = userId" by blast
  from signLease_found[OF l0(2) l0(1) l0(4) l0(3), of "Some sg"] assms
  show ?thesis by auto
qed

lemma sign_route_truthy:
  "truthy signature \<Longrightarrow> sign_route E s leaseId signature userId =
     (case signLease E s leaseId signature userId of
       (Inr result, s') \<Rightarrow> (\<lparr>code = 200, body = LeaseData result\<rparr>, s')
     | (Inl error, s') \<Rightarrow>
         if message_of error = ''Lease not found''
         then (\<lparr>code = 404, body = Message False ''Lease not found''\<rparr>, s')
         else if message_of error = ''UNAUTHORIZED''
         then (\<lparr>code = 403, body = Message False ''You are not authorized to sign this lease''\<rparr>, s')
         else (\<lparr>code = 500, body = Message False ''Internal Server Error''\<rparr>, s'))"
  by (simp add: sign_route_def)

lemma sign_route_falsy:
  "\<not> truthy signature \<Longrightarrow> sign_route E s leaseId signature userId =
     (\<lparr>code = 400, body = Message False ''Signature is required''\<rparr>, s)"
  by (simp add: sign_route_def)

lemma sign_route_200:
  assumes "sign_route E s leaseId signature userId = (r, s')" and "code r = 200"
  shows "\<exists>sg l. signature = Some sg \<and> sg \<noteq> [] \<and>
           signLease E s leaseId (Some sg) userId = (Inr l, s') \<and> body r = LeaseData l"
proof (cases "truthy signature")
  case False
  from sign_route_falsy[OF False, of E s leaseId userId] assms show ?thesis by auto
next
  case True
  then obtain sg where sg: "signature = Some sg" "sg \<noteq> []" by (cases signature) auto
  show ?thesis
  proof (cases "signLease E s leaseId signature userId")
    case (Pair res s1)
    show ?thesis
    proof (cases res)
      case (Inl e)
      with assms Pair sign_route_truthy[OF True, of E s leaseId userId] have False
        by (cases "message_of e = ''Lease not found''"; cases "message_of e = ''UNAUTHORIZED''")
           auto
      then show ?thesis ..
    next
      case (Inr l)
      with assms sg Pair sign_route_truthy[OF True, of E s leaseId userId] show ?thesis
        by auto
    qed
  qed
qed


lemma sign_route_signs:
  assumes "\<not> throws E LeaseFindUnique" and "\<not> throws E LeaseUpdate"
    and "leases s leaseId = Some l0" and "tenantId l0 = userId \<or> landlordId l0 = userId"
    and "sg \<noteq> []"
  shows "\<exists>r l. sign_route E s leaseId (Some sg) userId = (r, s\<lparr>leases := (leases s)(leaseId \<mapsto> l)\<rparr>)
          \<and> code r = 200
          \<and> tenantId l = tenantId l0 \<and> landlordId l = landlordId l0
          \<and> tenantSignature l = (if tenantId l0 = userId then Some sg else tenantSignature l0)
          \<and> landlordSignature l = (if landlordId l0 = userId then Some sg else landlordSignature l0)
          \<and> signatureStatus l = status_of_signatures
               (tenantId l0 = userId \<or> tenantSignature l0 \<noteq> None)
               (landlordId l0 = userId \<or> landlordSignature l0 \<noteq> None)"
proof -
  let ?l = "l0\<lparr> tenantSignature := (if tenantId l0 = userId then Some sg else tenantSignature l0),
      landlordSignature := (if landlordId l0 = userId then Some sg else landlordSignature l0),
      tenantSignedAt := (if tenantId l0 = userId then Some (now E) else tenantSignedAt l0),
      landlordSignedAt := (if landlordId l0 = userId then Some (now E) else landlordSignedAt l0),
      signatureStatus := status_of_signatures
         (tenantId l0 = userId \<or> tenantSignature l0 \<noteq> None)
         (landlordId l0 = userId \<or> landlordSignature l0 \<noteq> None) \<rparr>"
  have t: "truthy (Some sg)" using assms(5) by simp
  have "sign_route E s leaseId (Some sg) userId =
          (\<lparr>code = 200, body = LeaseData ?l\<rparr>, s\<lparr>leases := (leases s)(leaseId \<mapsto> ?l)\<rparr>)"
    unfolding sign_route_truthy[OF t] signLease_found[OF assms(1) assms(3) assms(4) assms(2)]
    by simp
  then show ?thesis
    by (intro exI[of _ "\<lparr>code = 200, body = LeaseData ?l\<rparr>"] exI[of _ ?l]) simp
qed

subsection \<open>The status is a function of the two signatures\<close>

text \<open>
  Claim C3.  Whenever \<open>signLease\<close> writes a lease with a signature that is not null, the
  status it persists is the one the pair (tenant signature present, landlord signature
  present) determines: FULLY_SIGNED, TENANT_SIGNED, LANDLORD_SIGNED or PENDING.  The route
  is the only caller and refuses a missing or empty signature, so every lease a 200
  response leaves in the store has that status.  In particular, on a lease that nobody has
  signed and whose tenant and landlord are two users, the tenant signing gives
  TENANT_SIGNED and the landlord signing afterwards gives FULLY_SIGNED.
\<close>

theorem signLease_status_determined:
  "(signLease E s leaseId (Some sig) userId = (Inr l, s') \<longrightarrow>
      leases s' leaseId = Some l \<and>
      signatureStatus l =
        status_of_signatures (tenantSignature l \<noteq> None) (landlordSignature l \<noteq> None))
   \<and> (sign_route E s leaseId signature userId = (r, s') \<and> code r = 200 \<longrightarrow>
        (\<exists>l. leases s' leaseId = Some l \<and> body r = LeaseData l \<and>
          signatureStatus l =
            status_of_signatures (tenantSignature l \<noteq> None) (landlordSignature l \<noteq> None)))
   \<and> (\<not> throws E LeaseFindUnique \<and> \<not> throws E LeaseUpdate \<and> leases s leaseId = Some old \<and>
       tenantSignature old = None \<and> landlordSignature old = None \<and>
       tenantId old \<noteq> landlordId old \<and> sigT \<noteq> [] \<and> sigL \<noteq> [] \<longrightarrow>
        (\<exists>r1 s1 l1 r2 s2 l2.
            sign_route E s leaseId (Some sigT) (tenantId old) = (r1, s1) \<and>
            leases s1 leaseId = Some l1 \<and> signatureStatus l1 = ''TENANT_SIGNED'' \<and>
            sign_route E s1 leaseId (Some sigL) (landlordId old) = (r2, s2) \<and>
            leases s2 leaseId = Some l2 \<and> signatureStatus l2 = ''FULLY_SIGNED''))"
proof -
  have route: "\<exists>l. leases s' leaseId = Some l \<and> body r = LeaseData l \<and>
          signatureStatus l =
            status_of_signatures (tenantSignature l \<noteq> None) (landlordSignature l \<noteq> None)"
    if a: "sign_route E s leaseId signature userId = (r, s')" "code r = 200"
  proof -
    from sign_route_200[OF a] obtain sg l where
      "signLease E s leaseId (Some sg) userId = (Inr l, s')" "body r = LeaseData l" by blast
    with status_of_written[of E s leaseId sg userId l s'] show ?thesis by blast
  qed
  have scenario: "\<exists>r1 s1 l1 r2 s2 l2.
            sign_route E s leaseId (Some sigT) (tenantId old) = (r1, s1) \<and>
            leases s1 leaseId = Some l1 \<and> signatureStatus l1 = ''TENANT_SIGNED'' \<and>
            sign_route E s1 leaseId (Some sigL) (landlordId old) = (r2, s2) \<and>
            leases s2 leaseId = Some l2 \<and> signatureStatus l2 = ''FULLY_SIGNED''"
    if nf: "\<not> throws E LeaseFindUnique" and nu: "\<not> throws E LeaseUpdate"
      and old: "leases s leaseId = Some old"
      and unsigned: "tenantSignature old = None" "landlordSignature old = None"
      and distinct: "tenantId old \<noteq> landlordId old" and sigs: "sigT \<noteq> []" "sigL \<noteq> []"
  proof -
    from sign_route_signs[OF nf nu old _ sigs(1), of "tenantId old"] obtain r1 l1 where
      one: "sign_route E s leaseId (Some sigT) (tenantId old) =
              (r1, s\<lparr>leases := (leases s)(leaseId \<mapsto> l1)\<rparr>)"
        "tenantId l1 = tenantId old" "landlordId l1 = landlordId old"
        "tenantSignature l1 = (if tenantId old = tenantId old then Some sigT else tenantSignature old)"
        "landlordSignature l1 =
           (if landlordId old = tenantId old then Some sigT else landlordSignature old)"
        "signatureStatus l1 = status_of_signatures
               (tenantId old = tenantId old \<or> tenantSignature old \<noteq> None)
               (landlordId old = tenantId old \<or> landlordSignature old \<noteq> None)"
      by blast
    let ?s1 = "s\<lparr>leases := (leases s)(leaseId \<mapsto> l1)\<rparr>"
    have st1: "signatureStatus l1 = ''TENANT_SIGNED''"
      using one(6) distinct unsigned by simp
    have l1: "leases ?s1 leaseId = Some l1" by simp
    have party: "tenantId l1 = landlordId old \<or> landlordId l1 = landlordId old"
      using one(3) by simp
    from sign_route_signs[OF nf nu l1 party sigs(2)] obtain r2 l2 where
      two: "sign_route E ?s1 leaseId (Some sigL) (landlordId old) =
              (r2, ?s1\<lparr>leases := (leases ?s1)(leaseId \<mapsto> l2)\<rparr>)"
        "signatureStatus l2 = status_of_signatures
               (tenantId l1 = landlordId old \<or> tenantSignature l1 \<noteq> None)
               (landlordId l1 = landlordId old \<or> landlordSignature l1 \<noteq> None)"
      by blast
    have st2: "signatureStatus l2 = ''FULLY_SIGNED''"
      using two(2) one(3,4) by simp
    have l2: "leases (?s1\<lparr>leases := (leases ?s1)(leaseId \<mapsto> l2)\<rparr>) leaseId = Some l2" by simp
    from one(1) l1 st1 two(1) l2 st2 show ?thesis by blast
  qed
  from status_of_written[of E s leaseId sig userId l s'] route scenario show ?thesis by blast
qed

theorem signLease_status_determined_witness:
  "\<not> throws env0 LeaseFindUnique \<and> \<not> throws env0 LeaseUpdate \<and>
   leases store0 ''lease-1'' = Some lease0 \<and>
   tenantSignature lease0 = None \<and> landlordSignature lease0 = None \<and>
   tenantId lease0 \<noteq> landlordId lease0 \<and>
   (\<exists>r1 s1 l1 r2 s2 l2.
      sign_route env0 store0 ''lease-1'' (Some ''sig-of-tenant'') (tenantId lease0) = (r1, s1) \<and>
      leases s1 ''lease-1'' = Some l1 \<and> signatureStatus l1 = ''TENANT_SIGNED'' \<and>
      sign_route env0 s1 ''lease-1'' (Some ''sig-of-landlord'') (landlordId lease0) = (r2, s2) \<and>
      leases s2 ''lease-1'' = Some l2 \<and> signatureStatus l2 = ''FULLY_SIGNED'')"
proof -
  have h: "\<not> throws env0 LeaseFindUnique \<and> \<not> throws env0 LeaseUpdate \<and>
     leases store0 ''lease-1'' = Some lease0 \<and>
     tenantSignature lease0 = None \<and> landlordSignature lease0 = None \<and>
     tenantId lease0 \<noteq> landlordId lease0 \<and> ''sig-of-tenant'' \<noteq> [] \<and> ''sig-of-landlord'' \<noteq> []"
    by (simp add: env0_def store0_def lease0_def)
  with signLease_status_determined[where E = env0 and s = store0 and leaseId = "''lease-1''"
      and old = lease0 and sigT = "''sig-of-tenant''" and sigL = "''sig-of-landlord''"]
  show ?thesis by blast
qed

subsection \<open>Signing touches the signer's own fields only\<close>

text \<open>
  Claim C4.  When the caller is exactly one of the two parties of the lease, \<open>signLease\<close>
  succeeds, writes that party's signature and signed-at time, and leaves the other party's
  signature and signed-at time as they were, whatever they were: so signing again
  overwrites the signer's own signature only.  No other lease changes.
\<close>

theorem signLease_touches_own_party_only:
  "\<not> throws E LeaseFindUnique \<and> \<not> throws E LeaseUpdate \<and> leases s leaseId = Some old \<and>
   (tenantId old = userId) \<noteq> (landlordId old = userId) \<longrightarrow>
     (\<exists>l. signLease E s leaseId signature userId = (Inr l, s\<lparr>leases := (leases s)(leaseId \<mapsto> l)\<rparr>) \<and>
        tenantId l = tenantId old \<and> landlordId l = landlordId old \<and>
        (tenantId old = userId \<longrightarrow>
           tenantSignature l = signature \<and> tenantSignedAt l = Some (now E) \<and>
           landlordSignature l = landlordSignature old \<and>
           landlordSignedAt l = landlordSignedAt old) \<and>
        (landlordId old = userId \<longrightarrow>
           landlordSignature l = signature \<and> landlordSignedAt l = Some (now E) \<and>
           tenantSignature l = tenantSignature old \<and>
           tenantSignedAt l = tenantSignedAt old))"
proof (intro impI, elim conjE)
  assume nf: "\<not> throws E LeaseFindUnique" and nu: "\<not> throws E LeaseUpdate"
    and old: "leases s leaseId = Some old"
    and one: "(tenantId old = userId) \<noteq> (landlordId old = userId)"
  from one have party: "tenantId old = userId \<or> landlordId old = userId" by blast
  show "\<exists>l. signLease E s leaseId signature userId = (Inr l, s\<lparr>leases := (leases s)(leaseId \<mapsto> l)\<rparr>) \<and>
        tenantId l = tenantId old \<and> landlordId l = landlordId old \<and>
        (tenantId old = userId \<longrightarrow>
           tenantSignature l = signature \<and> tenantSignedAt l = Some (now E) \<and>
           landlordSignature l = landlordSignature old \<and>
           landlordSignedAt l = landlordSignedAt old) \<and>
        (landlordId old = userId \<longrightarrow>
           landlordSignature l = signature \<and> landlordSignedAt l = Some (now E) \<and>
           tenantSignature l = tenantSignature old \<and>
           tenantSignedAt l = tenantSignedAt old)"
  proof -
    let ?l = "old\<lparr> tenantSignature := (if tenantId old = userId then signature else tenantSignature old),
      landlordSignature := (if landlordId old = userId then signature else landlordSignature old),
      tenantSignedAt := (if tenantId old = userId then Some (now E) else tenantSignedAt old),
      landlordSignedAt := (if landlordId old = userId then Some (now E) else landlordSignedAt old),
      signatureStatus := status_of_signatures
         (tenantId old = userId \<or> tenantSignature old \<noteq> None)
         (landlordId old = userId \<or> landlordSignature old \<noteq> None) \<rparr>"
    have "signLease E s leaseId signature userId =
            (Inr ?l, s\<lparr>leases := (leases s)(leaseId \<mapsto> ?l)\<rparr>)"
      by (rule signLease_found[OF nf old party nu])
    with one show ?thesis
      by (intro exI[of _ ?l]) auto
  qed
qed

theorem signLease_touches_own_party_only_witness:
  "\<exists>l. signLease env0 store0 ''lease-1'' (Some ''sig-of-tenant'') ''u1'' =
          (Inr l, store0\<lparr>leases := (leases store0)(''lease-1'' \<mapsto> l)\<rparr>) \<and>
        tenantSignature l = Some ''sig-of-tenant'' \<and> tenantSignedAt l = Some 1000000000 \<and>
        landlordSignature l = None \<and> landlordSignedAt l = None"
proof -
  have h: "\<not> throws env0 LeaseFindUnique \<and> \<not> throws env0 LeaseUpdate \<and>
     leases store0 ''lease-1'' = Some lease0 \<and>
     (tenantId lease0 = ''u1'') \<noteq> (landlordId lease0 = ''u1'')"
    by (simp add: env0_def store0_def lease0_def)
  have f: "now env0 = 1000000000" "tenantId lease0 = ''u1''"
      "landlordSignature lease0 = None" "landlordSignedAt lease0 = None"
    by (simp_all add: env0_def lease0_def)
  from signLease_touches_own_party_only[where E = env0 and s = store0
      and leaseId = "''lease-1''" and old = lease0 and userId = "''u1''"
      and signature = "Some ''sig-of-tenant''"] h
  obtain l where "signLease env0 store0 ''lease-1'' (Some ''sig-of-tenant'') ''u1'' =
          (Inr l, store0\<lparr>leases := (leases store0)(''lease-1'' \<mapsto> l)\<rparr>)"
     "tenantId lease0 = ''u1'' \<longrightarrow>
           tenantSignature l = Some ''sig-of-tenant'' \<and> tenantSignedAt l = Some (now env0) \<and>
           landlordSignature l = landlordSignature lease0 \<and>
           landlordSignedAt l = landlordSignedAt lease0"
    by blast
  with f show ?thesis by (intro exI[of _ l]) simp
qed

subsection \<open>The two refusals\<close>

text \<open>
  Claim C5.  \<open>signLease\<close> throws "Lease not found" when the store has no lease of that id
  and "UNAUTHORIZED" when the caller is neither the tenant nor the landlord of the lease;
  the route answers 404 and 403.  A call that throws, for whatever reason, leaves the
  store exactly as it was.
\<close>

theorem signLease_errors:
  "(\<not> throws E LeaseFindUnique \<and> leases s leaseId = None \<longrightarrow>
      signLease E s leaseId signature userId = (Inl (Error ''Lease not found''), s) \<and>
      (truthy signature \<longrightarrow>
         sign_route E s leaseId signature userId =
           (\<lparr>code = 404, body = Message False ''Lease not found''\<rparr>, s)))
   \<and> (\<not> throws E LeaseFindUnique \<and> leases s leaseId = Some old \<and>
       tenantId old \<noteq> userId \<and> landlordId old \<noteq> userId \<longrightarrow>
      signLease E s leaseId signature userId = (Inl (Error ''UNAUTHORIZED''), s) \<and>
      (truthy signature \<longrightarrow>
         sign_route E s leaseId signature userId =
           (\<lparr>code = 403, body = Message False ''You are not authorized to sign this lease''\<rparr>, s)))
   \<and> (signLease E s leaseId signature userId = (Inl e, s') \<longrightarrow> s' = s)"
proof -
  have missing: "signLease E s leaseId signature userId = (Inl (Error ''Lease not found''), s) \<and>
      (truthy signature \<longrightarrow>
         sign_route E s leaseId signature userId =
           (\<lparr>code = 404, body = Message False ''Lease not found''\<rparr>, s))"
    if "\<not> throws E LeaseFindUnique" "leases s leaseId = None"
    using signLease_missing[OF that, of signature userId]
    by (simp add: sign_route_truthy)
  have stranger: "signLease E s leaseId signature userId = (Inl (Error ''UNAUTHORIZED''), s) \<and>
      (truthy signature \<longrightarrow>
         sign_route E s leaseId signature userId =
           (\<lparr>code = 403, body = Message False ''You are not authorized to sign this lease''\<rparr>, s))"
    if "\<not> throws E LeaseFindUnique" "leases s leaseId = Some old"
       "tenantId old \<noteq> userId" "landlordId old \<noteq> userId"
    using signLease_stranger[OF that, of signature]
    by (simp add: sign_route_truthy)
  from missing stranger signLease_Inl_store[of E s leaseId signature userId e s']
  show ?thesis by blast
qed

theorem signLease_errors_witness:
  "signLease env0 store0 ''lease-9'' (Some ''sig'') ''u1'' =
     (Inl (Error ''Lease not found''), store0) \<and>
   sign_route env0 store0 ''lease-9'' (Some ''sig'') ''u1'' =
     (\<lparr>code = 404, body = Message False ''Lease not found''\<rparr>, store0) \<and>
   signLease env0 store0 ''lease-1'' (Some ''sig'') ''u3'' =
     (Inl (Error ''UNAUTHORIZED''), store0) \<and>
   sign_route env0 store0 ''lease-1'' (Some ''sig'') ''u3'' =
     (\<lparr>code = 403, body = Message False ''You are not authorized to sign this lease''\<rparr>, store0)"
proof -
  have h: "\<not> throws env0 LeaseFindUnique" "leases store0 ''lease-9'' = None"
      "leases store0 ''lease-1'' = Some lease0"
      "tenantId lease0 \<noteq> ''u3''" "landlordId lease0 \<noteq> ''u3''" "truthy (Some ''sig'')"
    by (simp_all add: env0_def store0_def lease0_def)
  from h signLease_errors[where E = env0 and s = store0 and leaseId = "''lease-9''"
        and signature = "Some ''sig''" and userId = "''u1''"]
      signLease_errors[where E = env0 and s = store0 and leaseId = "''lease-1''"
        and signature = "Some ''sig''" and userId = "''u3''" and old = lease0]
  show ?thesis by blast
qed

section \<open>Password login: what the code guarantees\<close>

subsection \<open>The rows \<open>logActivity\<close> writes and the branches of the handler\<close>

lemma logActivity_blocked:
  "logActivity E s uid ''LOGIN_BLOCKED'' req d =
     (if throws E ActivityLogCreate then s
      else s\<lparr>activityLogs :=
             \<lparr> l_userId = uid, l_action = ''LOGIN_BLOCKED'', l_status = ''INFO'',
               ipAddress = or_else (currentIp req) ''0.0.0.0'',
               userAgent = or_else (user_agent req) ''Unknown'',
               details = d, createdAt = now E \<rparr> # activityLogs s\<rparr>)"
  by (simp add: logActivity_def currentIp_def)

lemma logActivity_failed:
  "logActivity E s uid ''LOGIN_FAILED'' req d =
     (if throws E ActivityLogCreate then s
      else s\<lparr>activityLogs :=
             \<lparr> l_userId = uid, l_action = ''LOGIN'', l_status = ''FAILURE'',
               ipAddress = or_else (currentIp req) ''0.0.0.0'',
               userAgent = or_else (user_agent req) ''Unknown'',
               details = d, createdAt = now E \<rparr> # activityLogs s\<rparr>)"
  by (simp add: logActivity_def currentIp_def)

lemma logActivity_success:
  "logActivity E s uid ''LOGIN_SUCCESS'' req d =
     (if throws E ActivityLogCreate then s
      else s\<lparr>activityLogs :=
             \<lparr> l_userId = uid, l_action = ''LOGIN'', l_status = ''SUCCESS'',
               ipAddress = or_else (currentIp req) ''0.0.0.0'',
               userAgent = or_else (user_agent req) ''Unknown'',
               details = d, createdAt = now E \<rparr> # activityLogs s\<rparr>)"
  by (simp add: logActivity_def currentIp_def)

lemma login_malformed:
  "body_email req = None \<or> body_password req = None \<or>
   (\<exists>e. body_email req = Some e \<and> \<not> isEmail E e) \<or> body_password req = Some [] \<Longrightarrow>
   login E s req = (\<lparr>code = 400, body = Errors\<rparr>, s)"
  by (auto simp: login_def split: option.splits)

lemma login_lookup_throws:
  "body_email req = Some e \<Longrightarrow> body_password req = Some p \<Longrightarrow> isEmail E e \<Longrightarrow> p \<noteq> [] \<Longrightarrow>
   throws E UserFindUnique \<Longrightarrow> login E s req = (internalServerError, s)"
  by (simp add: login_def)

lemma login_unknown:
  "body_email req = Some e \<Longrightarrow> body_password req = Some p \<Longrightarrow> isEmail E e \<Longrightarrow> p \<noteq> [] \<Longrightarrow>
   \<not> throws E UserFindUnique \<Longrightarrow>
   find (\<lambda>u. u_email u = normalizeEmail E e) (users s) = None \<Longrightarrow>
   login E s req = (invalidCredentials, s)"
  by (simp add: login_def)

lemma login_inactive:
  "body_email req = Some e \<Longrightarrow> body_password req = Some p \<Longrightarrow> isEmail E e \<Longrightarrow> p \<noteq> [] \<Longrightarrow>
   \<not> throws E UserFindUnique \<Longrightarrow>
   find (\<lambda>u. u_email u = normalizeEmail E e) (users s) = Some user \<Longrightarrow> \<not> isActive user \<Longrightarrow>
   login E s req = (invalidCredentials, s)"
  by (simp add: login_def)

lemma login_locked:
  "body_email req = Some e \<Longrightarrow> body_password req = Some p \<Longrightarrow> isEmail E e \<Longrightarrow> p \<noteq> [] \<Longrightarrow>
   \<not> throws E UserFindUnique \<Longrightarrow>
   find (\<lambda>u. u_email u = normalizeEmail E e) (users s) = Some user \<Longrightarrow> isActive user \<Longrightarrow>
   isAccountLocked E s (u_id user) \<Longrightarrow>
   login E s req =
     (accountLocked,
      logActivity E s (u_id user) ''LOGIN_BLOCKED'' req [(''reason'', ''account_locked'')])"
  by (simp add: login_def)

lemma login_wrong_password:
  "body_email req = Some e \<Longrightarrow> body_password req = Some p \<Longrightarrow> isEmail E e \<Longrightarrow> p \<noteq> [] \<Longrightarrow>
   \<not> throws E UserFindUnique \<Longrightarrow>
   find (\<lambda>u. u_email u = normalizeEmail E e) (users s) = Some user \<Longrightarrow> isActive user \<Longrightarrow>
   \<not> isAccountLocked E s (u_id user) \<Longrightarrow> \<not> bcrypt_compare E p (u_password user) \<Longrightarrow>
   login E s req =
     (invalidCredentials,
      logActivity E s (u_id user) ''LOGIN_FAILED'' req [(''reason'', ''wrong_password'')])"
  by (simp add: login_def)

lemma login_password_ok:
  "body_email req = Some e \<Longrightarrow> body_password req = Some p \<Longrightarrow> isEmail E e \<Longrightarrow> p \<noteq> [] \<Longrightarrow>
   \<not> throws E UserFindUnique \<Longrightarrow>
   find (\<lambda>u. u_email u = normalizeEmail E e) (users s) = Some user \<Longrightarrow> isActive user \<Longrightarrow>
   \<not> isAccountLocked E s (u_id user) \<Longrightarrow> bcrypt_compare E p (u_password user) \<Longrightarrow>
   login E s req =
     (if mfaEnabled user then \<lparr>code = 200, body = MfaRequired (u_id user)\<rparr>
      else \<lparr>code = 200, body = LoginData (withoutPassword user)
                                (jwt_sign E (u_id user) (u_email user) (u_role user))\<rparr>,
      zeroTrust E (logActivity E s (u_id user) ''LOGIN_SUCCESS'' req []) user req)"
  by (simp add: login_def Let_def)


lemma failedLogins_blocked:
  "failedLogins E (logActivity E s uid ''LOGIN_BLOCKED'' req d) uid' = failedLogins E s uid'"
  by (simp add: logActivity_blocked failedLogins_def)

lemma isAccountLocked_iff:
  "isAccountLocked E s uid = (\<not> throws E ActivityLogCount \<and> 5 \<le> failedLogins E s uid)"
  by (simp add: isAccountLocked_def)

lemma isAccountLocked_bcrypt:
  "isAccountLocked (E\<lparr>bcrypt_compare := c\<rparr>) s uid = isAccountLocked E s uid"
  by (simp add: isAccountLocked_def failedLogins_def)

lemma logActivity_bcrypt:
  "logActivity (E\<lparr>bcrypt_compare := c\<rparr>) s uid a req d = logActivity E s uid a req d"
  by (simp add: logActivity_def)

subsection \<open>Lockout\<close>

text \<open>
  Claim C1, as the code has it.  The handler answers 401 for an unknown or inactive user
  before it looks at the failure count, so the lockout binds the active users: for an
  active user with at least 5 FAILURE rows of action LOGIN in the last 15 minutes, a login
  request that passes validation is answered 423 (when the user lookup and the count do
  not throw).  The answer and the store afterwards are the same whatever
  \<^verbatim>\<open>bcrypt.compare\<close> would say, the check coming first.  The row written for the blocked
  attempt has action LOGIN_BLOCKED and status INFO, and the failure count is what it was.
\<close>

theorem lockout_precedes_password:
  assumes req: "body_email req = Some e" "body_password req = Some p" "isEmail E e" "p \<noteq> []"
    and ok: "\<not> throws E UserFindUnique" "\<not> throws E ActivityLogCount"
    and user: "find (\<lambda>u. u_email u = normalizeEmail E e) (users s) = Some user" "isActive user"
    and failures: "5 \<le> failedLogins E s (u_id user)"
  shows "fst (login E s req) = accountLocked \<and> code (fst (login E s req)) = 423 \<and>
     (\<forall>c. login (E\<lparr>bcrypt_compare := c\<rparr>) s req = login E s req) \<and>
     (if throws E ActivityLogCreate then activityLogs (snd (login E s req)) = activityLogs s
      else \<exists>row. activityLogs (snd (login E s req)) = row # activityLogs s \<and>
             l_userId row = u_id user \<and> l_action row = ''LOGIN_BLOCKED'' \<and>
             l_status row = ''INFO'') \<and>
     failedLogins E (snd (login E s req)) (u_id user) = failedLogins E s (u_id user)"
proof -
  have locked: "isAccountLocked E s (u_id user)"
    using ok(2) failures by (simp add: isAccountLocked_iff)
  have eq: "login E s req =
     (accountLocked,
      logActivity E s (u_id user) ''LOGIN_BLOCKED'' req [(''reason'', ''account_locked'')])"
    by (rule login_locked[OF req ok(1) user locked])
  have indep: "login (E\<lparr>bcrypt_compare := c\<rparr>) s req = login E s req" for c
  proof -
    have "login (E\<lparr>bcrypt_compare := c\<rparr>) s req =
       (accountLocked,
        logActivity (E\<lparr>bcrypt_compare := c\<rparr>) s (u_id user) ''LOGIN_BLOCKED'' req
          [(''reason'', ''account_locked'')])"
      using req ok(1) user locked
      by (intro login_locked[where e = e and p = p]) (simp_all add: isAccountLocked_bcrypt)
    then show ?thesis by (simp add: eq logActivity_bcrypt)
  qed
  have resp: "fst (login E s req) = accountLocked" "code (fst (login E s req)) = 423"
    by (simp_all add: eq accountLocked_def)
  have row: "if throws E ActivityLogCreate then activityLogs (snd (login E s req)) = activityLogs s
      else \<exists>row. activityLogs (snd (login E s req)) = row # activityLogs s \<and>
             l_userId row = u_id user \<and> l_action row = ''LOGIN_BLOCKED'' \<and>
             l_status row = ''INFO''"
    by (simp add: eq logActivity_blocked)
  have count: "failedLogins E (snd (login E s req)) (u_id user) = failedLogins E s (u_id user)"
    by (simp add: eq failedLogins_blocked)
  from resp indep row count show ?thesis by blast
qed

theorem lockout_precedes_password_witness:
  "5 \<le> failedLogins env0 (lockedStore ''u1'') (u_id alice) \<and> isActive alice \<and>
   bcrypt_compare env0 ''secret'' (u_password alice) \<and>
   fst (login env0 (lockedStore ''u1'') (loginRequest ''alice@example.com'' ''secret'')) = accountLocked \<and>
   code (fst (login env0 (lockedStore ''u1'') (loginRequest ''alice@example.com'' ''secret''))) = 423"
proof -
  have h: "body_email (loginRequest ''alice@example.com'' ''secret'') = Some ''alice@example.com''"
      "body_password (loginRequest ''alice@example.com'' ''secret'') = Some ''secret''"
      "isEmail env0 ''alice@example.com''" "''secret'' \<noteq> []"
      "\<not> throws env0 UserFindUnique" "\<not> throws env0 ActivityLogCount"
      "find (\<lambda>u. u_email u = normalizeEmail env0 ''alice@example.com'') (users (lockedStore ''u1''))
         = Some alice"
      "isActive alice"
    by (simp_all add: loginRequest_def env0_def lockedStore_def store0_def alice_def)
  have f: "5 \<le> failedLogins env0 (lockedStore ''u1'') (u_id alice)"
    by (simp add: failedLogins_def lockedStore_def failedAttempt_def env0_def alice_def)
  have b: "bcrypt_compare env0 ''secret'' (u_password alice)"
    by (simp add: env0_def alice_def)
  from lockout_precedes_password[OF h f] f b h(8) show ?thesis by blast
qed

text \<open>
  The claim as first stated, for every user: carol has five recent failures and is
  inactive, and her login is answered 401.
\<close>

theorem lockout_inactive_counterexample:
  "5 \<le> failedLogins env0 (lockedStore ''u3'') (u_id carol) \<and>
   find (\<lambda>u. u_email u = ''carol@example.com'') (users (lockedStore ''u3'')) = Some carol \<and>
   code (fst (login env0 (lockedStore ''u3'') (loginRequest ''carol@example.com'' ''pw''))) = 401"
  by (simp add: failedLogins_def lockedStore_def failedAttempt_def env0_def carol_def alice_def
      bob_def store0_def login_def loginRequest_def invalidCredentials_def)

subsection \<open>Rows written per attempt\<close>

lemma zeroTrust_logs: "activityLogs (zeroTrust E s user req) = activityLogs s"
  by (simp add: zeroTrust_def)

lemma fst_login:
  "fst (login E s req) =
    (case (body_email req, body_password req) of
       (Some e, Some password) \<Rightarrow>
         if \<not> isEmail E e \<or> password = [] then \<lparr>code = 400, body = Errors\<rparr>
         else if throws E UserFindUnique then internalServerError
         else
          (case find (\<lambda>u. u_email u = normalizeEmail E e) (users s) of
             None \<Rightarrow> invalidCredentials
           | Some user \<Rightarrow>
              if \<not> isActive user then invalidCredentials
              else if isAccountLocked E s (u_id user) then accountLocked
              else if \<not> bcrypt_compare E password (u_password user) then invalidCredentials
              else if mfaEnabled user then \<lparr>code = 200, body = MfaRequired (u_id user)\<rparr>
              else \<lparr>code = 200, body = LoginData (withoutPassword user)
                          (jwt_sign E (u_id user) (u_email user) (u_role user))\<rparr>)
     | _ \<Rightarrow> \<lparr>code = 400, body = Errors\<rparr>)"
  by (simp add: login_def Let_def split: option.split)

text \<open>
  Claim C8 says that every login attempt writes one activity-log row, also an attempt for
  an absent or inactive user.  The handler's comment at that branch says the attempt is
  logged, but the branch returns at once: for a request that passes validation and names
  an unknown or inactive user, the answer is 401 and the store, so the activity log, is
  what it was.
\<close>

theorem login_unknown_user_writes_no_row:
  assumes "body_email req = Some e" "body_password req = Some p" "isEmail E e" "p \<noteq> []"
    and "\<not> throws E UserFindUnique"
    and "find (\<lambda>u. u_email u = normalizeEmail E e) (users s) = None \<or>
         (\<exists>user. find (\<lambda>u. u_email u = normalizeEmail E e) (users s) = Some user \<and>
                  \<not> isActive user)"
  shows "fst (login E s req) = invalidCredentials \<and> snd (login E s req) = s \<and>
         activityLogs (snd (login E s req)) = activityLogs s"
  using assms login_unknown[of req e p E s] login_inactive[of req e p E s]
  by auto

theorem login_unknown_user_writes_no_row_witness:
  "find (\<lambda>u. u_email u = ''mallory@example.com'') (users store0) = None \<and>
   fst (login env0 store0 (loginRequest ''mallory@example.com'' ''guess'')) = invalidCredentials \<and>
   activityLogs (snd (login env0 store0 (loginRequest ''mallory@example.com'' ''guess''))) = []"
proof -
  have h: "body_email (loginRequest ''mallory@example.com'' ''guess'') = Some ''mallory@example.com''"
      "body_password (loginRequest ''mallory@example.com'' ''guess'') = Some ''guess''"
      "isEmail env0 ''mallory@example.com''" "''guess'' \<noteq> []"
      "\<not> throws env0 UserFindUnique"
    by (simp_all add: loginRequest_def env0_def)
  have n: "find (\<lambda>u. u_email u = ''mallory@example.com'') (users store0) = None"
    by (simp add: store0_def alice_def bob_def carol_def dave_def)
  have n': "find (\<lambda>u. u_email u = normalizeEmail env0 ''mallory@example.com'') (users store0) = None \<or>
         (\<exists>user. find (\<lambda>u. u_email u = normalizeEmail env0 ''mallory@example.com'') (users store0) = Some user \<and>
                  \<not> isActive user)"
    using n by (simp add: env0_def)
  have e: "activityLogs store0 = []" by (simp add: store0_def)
  from login_unknown_user_writes_no_row[OF h n'] n e show ?thesis by simp
qed

text \<open>
  The other three cases of the claim hold: for a known, active user the handler puts
  exactly one row in front of the log, LOGIN_BLOCKED/INFO when the account is locked,
  LOGIN/SUCCESS when the password is right and LOGIN/FAILURE when it is wrong (when the
  write does not throw).
\<close>

lemma login_writes_one_row:
  assumes "body_email req = Some e" "body_password req = Some p" "isEmail E e" "p \<noteq> []"
    and "\<not> throws E UserFindUnique" "\<not> throws E ActivityLogCreate"
    and "find (\<lambda>u. u_email u = normalizeEmail E e) (users s) = Some user" "isActive user"
  shows "\<exists>row. activityLogs (snd (login E s req)) = row # activityLogs s \<and>
           l_userId row = u_id user \<and>
           (l_action row, l_status row) =
             (if isAccountLocked E s (u_id user) then (''LOGIN_BLOCKED'', ''INFO'')
              else if bcrypt_compare E p (u_password user) then (''LOGIN'', ''SUCCESS'')
              else (''LOGIN'', ''FAILURE''))"
proof (cases "isAccountLocked E s (u_id user)")
  case True
  with login_locked[OF assms(1-5) assms(7,8) True] assms(6) show ?thesis
    by (simp add: logActivity_blocked)
next
  case nl: False
  show ?thesis
  proof (cases "bcrypt_compare E p (u_password user)")
    case True
    with login_password_ok[OF assms(1-5) assms(7,8) nl True] assms(6) nl show ?thesis
      by (simp add: zeroTrust_logs logActivity_success)
  next
    case False
    with login_wrong_password[OF assms(1-5) assms(7,8) nl False] assms(6) nl show ?thesis
      by (simp add: logActivity_failed)
  qed
qed

subsection \<open>Failures of the monitoring calls\<close>

lemma logActivity_throws: "throws E ActivityLogCreate \<Longrightarrow> logActivity E s userId action req d = s"
  by (simp add: logActivity_def Let_def split: prod.split)

lemma zeroTrust_throws:
  "throws E ActivityLogFindMany \<or> throws E NotificationCreate \<Longrightarrow> zeroTrust E s user req = s"
  by (auto simp: zeroTrust_def)

lemma isAccountLocked_monitoring:
  "isAccountLocked (E\<lparr>throws := (throws E)(ActivityLogCreate := a, ActivityLogFindMany := b,
       NotificationCreate := c)\<rparr>) s uid = isAccountLocked E s uid"
  by (simp add: isAccountLocked_def failedLogins_def)

lemma fst_login_monitoring:
  "fst (login (E\<lparr>throws := (throws E)(ActivityLogCreate := a, ActivityLogFindMany := b,
       NotificationCreate := c)\<rparr>) s req) = fst (login E s req)"
  by (simp add: fst_login isAccountLocked_monitoring split: option.split)

lemma login_not_500: "\<not> throws E UserFindUnique \<Longrightarrow> code (fst (login E s req)) \<noteq> 500"
  by (simp add: fst_login invalidCredentials_def accountLocked_def split: option.split)

text \<open>
  Claim C9.  The response of a login request is the same whether or not the activity-log
  write, the history read and the notification write throw, and no failure of a
  monitoring call makes the handler answer 500: only the user lookup can.  A throwing log write is
  swallowed inside \<open>logActivity\<close>, which then returns with the store unchanged; a throw of
  the history read or of the notification write ends the new-device block and nothing
  else.  When the failure count cannot be read, \<open>isAccountLocked\<close> is false and the
  request goes on to the password comparison, whose outcome decides the response.
\<close>

theorem monitoring_failures_are_contained:
  "fst (login (E\<lparr>throws := (throws E)(ActivityLogCreate := a, ActivityLogFindMany := b,
       NotificationCreate := c)\<rparr>) s req) = fst (login E s req) \<and>
   (throws E ActivityLogCreate \<longrightarrow> logActivity E s userId action req d = s) \<and>
   (throws E ActivityLogFindMany \<or> throws E NotificationCreate \<longrightarrow> zeroTrust E s user req = s) \<and>
   (\<not> throws E UserFindUnique \<longrightarrow> code (fst (login E s req)) \<noteq> 500) \<and>
   (throws E ActivityLogCount \<longrightarrow> \<not> isAccountLocked E s userId) \<and>
   (throws E ActivityLogCount \<and> body_email req = Some e \<and> body_password req = Some p \<and>
    isEmail E e \<and> p \<noteq> [] \<and> \<not> throws E UserFindUnique \<and>
    find (\<lambda>u. u_email u = normalizeEmail E e) (users s) = Some user \<and> isActive user \<longrightarrow>
      fst (login E s req) =
        (if \<not> bcrypt_compare E p (u_password user) then invalidCredentials
         else if mfaEnabled user then \<lparr>code = 200, body = MfaRequired (u_id user)\<rparr>
         else \<lparr>code = 200, body = LoginData (withoutPassword user)
                   (jwt_sign E (u_id user) (u_email user) (u_role user))\<rparr>))"
proof -
  have count: "\<not> isAccountLocked E s uid" if "throws E ActivityLogCount" for uid
    using that by (simp add: isAccountLocked_def)
  have proceeds: "fst (login E s req) =
        (if \<not> bcrypt_compare E p (u_password user) then invalidCredentials
         else if mfaEnabled user then \<lparr>code = 200, body = MfaRequired (u_id user)\<rparr>
         else \<lparr>code = 200, body = LoginData (withoutPassword user)
                   (jwt_sign E (u_id user) (u_email user) (u_role user))\<rparr>)"
    if "throws E ActivityLogCount" "body_email req = Some e" "body_password req = Some p"
       "isEmail E e" "p \<noteq> []" "\<not> throws E UserFindUnique"
       "find (\<lambda>u. u_email u = normalizeEmail E e) (users s) = Some user" "isActive user"
    using that count[OF that(1), of "u_id user"] by (simp add: fst_login)
  from fst_login_monitoring[of E a b c s req] logActivity_throws[of E s userId action req d]
    zeroTrust_throws[of E s user req] count[of userId] proceeds login_not_500[of E s req]
  show ?thesis by blast
qed

theorem monitoring_failures_are_contained_witness:
  "throws env_monitoring_down ActivityLogCount \<and> throws env_monitoring_down ActivityLogCreate \<and>
   5 \<le> failedLogins env_monitoring_down (lockedStore ''u1'') ''u1'' \<and>
   \<not> isAccountLocked env_monitoring_down (lockedStore ''u1'') ''u1'' \<and>
   fst (login env_monitoring_down (lockedStore ''u1'') (loginRequest ''alice@example.com'' ''secret''))
     = \<lparr>code = 200, body = LoginData (withoutPassword alice) ''jwt:u1''\<rparr>"
proof -
  have h: "throws env_monitoring_down ActivityLogCount"
      "body_email (loginRequest ''alice@example.com'' ''secret'') = Some ''alice@example.com''"
      "body_password (loginRequest ''alice@example.com'' ''secret'') = Some ''secret''"
      "isEmail env_monitoring_down ''alice@example.com''" "''secret'' \<noteq> []"
      "\<not> throws env_monitoring_down UserFindUnique"
      "find (\<lambda>u. u_email u = normalizeEmail env_monitoring_down ''alice@example.com'')
         (users (lockedStore ''u1'')) = Some alice"
      "isActive alice"
    by (simp_all add: loginRequest_def env_monitoring_down_def env0_def lockedStore_def
          store0_def alice_def)
  have g: "throws env_monitoring_down ActivityLogCreate"
      "5 \<le> failedLogins env_monitoring_down (lockedStore ''u1'') ''u1''"
      "bcrypt_compare env_monitoring_down ''secret'' (u_password alice)"
      "\<not> mfaEnabled alice"
      "jwt_sign env_monitoring_down (u_id alice) (u_email alice) (u_role alice) = ''jwt:u1''"
    by (simp_all add: env_monitoring_down_def env0_def failedLogins_def lockedStore_def
          failedAttempt_def alice_def)
  from monitoring_failures_are_contained[where E = env_monitoring_down
      and s = "lockedStore ''u1''" and req = "loginRequest ''alice@example.com'' ''secret''"
      and e = "''alice@example.com''" and p = "''secret''" and user = alice and userId = "''u1''"]
    h g
  show ?thesis by simp
qed

section \<open>Multi-factor authentication: what the code guarantees\<close>

subsection \<open>Which endpoint hands out the token\<close>

lemma token_of_fixed:
  "token_of invalidCredentials = None" "token_of accountLocked = None"
  "token_of internalServerError = None"
  by (simp_all add: invalidCredentials_def accountLocked_def internalServerError_def)

lemma login_no_token_for_mfa_user:
  assumes "body_email req = Some e"
    and "find (\<lambda>u. u_email u = normalizeEmail E e) (users s) = Some user" and "mfaEnabled user"
  shows "token_of (fst (login E s req)) = None"
proof (cases "body_password req")
  case None
  with assms(1) show ?thesis by (simp add: fst_login)
next
  case (Some p)
  with assms show ?thesis
    by (simp add: fst_login invalidCredentials_def accountLocked_def internalServerError_def)
qed

lemma mfa_login_token_iff:
  assumes "find (\<lambda>u. Some (u_id u) = body_userId req) (users s) = Some user" and "mfaEnabled user"
  shows "(\<exists>t. token_of (mfa_login E s req) = Some t) \<longleftrightarrow>
         (truthy (body_userId req) \<and> truthy (body_token req) \<and> \<not> throws E UserFindUnique \<and>
          truthy (mfaSecret user) \<and> speakeasy_verify E (mfaSecret user) (body_token req) 2)"
  using assms by (auto simp: mfa_login_def internalServerError_def)

lemma oauth_callback_token:
  "redirect_token (oauth_callback E frontendUrl provider (Some u)) =
     Some (jwt_sign E (u_id u) (u_email u) (u_role u))"
  by (simp add: oauth_callback_def)

text \<open>
  Claim C7, as the code has it.  The lockout and the active flag are checked before the
  password, so the MFA-required answer is what an active user with \<open>mfaEnabled\<close> who is
  not locked out gets for a valid request with the right password: status 200, the user's
  id, no token.  In the password flow the token of such a user comes from
  \<^verbatim>\<open>POST /mfa/login\<close> only: whatever the request, \<^verbatim>\<open>POST /login\<close> never returns a token
  for a user with \<open>mfaEnabled\<close>, and \<^verbatim>\<open>POST /mfa/login\<close> returns one for such a user
  exactly when the request carries a user id and a code, the lookup does not throw, a
  secret is stored and the code verifies against it (window 2).  Outside the password
  flow, an OAuth callback hands a token to whatever user the provider authenticated; it
  does not read \<open>mfaEnabled\<close>.
\<close>

theorem mfa_user_gets_token_from_mfa_login_only:
  "(body_email req = Some e \<and> body_password req = Some p \<and> isEmail E e \<and> p \<noteq> [] \<and>
    \<not> throws E UserFindUnique \<and>
    find (\<lambda>u. u_email u = normalizeEmail E e) (users s) = Some user \<and>
    isActive user \<and> mfaEnabled user \<and> \<not> isAccountLocked E s (u_id user) \<and>
    bcrypt_compare E p (u_password user) \<longrightarrow>
      fst (login E s req) = \<lparr>code = 200, body = MfaRequired (u_id user)\<rparr> \<and>
      token_of (fst (login E s req)) = None) \<and>
   (body_email req = Some e \<and>
    find (\<lambda>u. u_email u = normalizeEmail E e) (users s) = Some user \<and> mfaEnabled user \<longrightarrow>
      token_of (fst (login E s req)) = None) \<and>
   (find (\<lambda>u. Some (u_id u) = body_userId req') (users s) = Some user' \<and> mfaEnabled user' \<longrightarrow>
      ((\<exists>t. token_of (mfa_login E s req') = Some t) \<longleftrightarrow>
         (truthy (body_userId req') \<and> truthy (body_token req') \<and> \<not> throws E UserFindUnique \<and>
          truthy (mfaSecret user') \<and>
          speakeasy_verify E (mfaSecret user') (body_token req') 2))) \<and>
   (mfaEnabled oauthUser \<longrightarrow>
      redirect_token (oauth_callback E frontendUrl provider (Some oauthUser)) =
        Some (jwt_sign E (u_id oauthUser) (u_email oauthUser) (u_role oauthUser)))"
proof -
  have required: "fst (login E s req) = \<lparr>code = 200, body = MfaRequired (u_id user)\<rparr> \<and>
      token_of (fst (login E s req)) = None"
    if "body_email req = Some e" "body_password req = Some p" "isEmail E e" "p \<noteq> []"
       "\<not> throws E UserFindUnique"
       "find (\<lambda>u. u_email u = normalizeEmail E e) (users s) = Some user"
       "isActive user" "mfaEnabled user" "\<not> isAccountLocked E s (u_id user)"
       "bcrypt_compare E p (u_password user)"
    using that by (simp add: fst_login)
  from required login_no_token_for_mfa_user[of req e E s user]
    mfa_login_token_iff[of req' s user' E]
    oauth_callback_token[of E frontendUrl provider oauthUser]
  show ?thesis by blast
qed

theorem mfa_user_gets_token_from_mfa_login_only_witness:
  "mfaEnabled bob \<and> isActive bob \<and> \<not> isAccountLocked env0 store0 (u_id bob) \<and>
   bcrypt_compare env0 ''hunter2'' (u_password bob) \<and>
   fst (login env0 store0 (loginRequest ''bob@example.com'' ''hunter2''))
     = \<lparr>code = 200, body = MfaRequired ''u2''\<rparr> \<and>
   token_of (fst (login env0 store0 (loginRequest ''bob@example.com'' ''hunter2''))) = None \<and>
   (\<exists>t. token_of (mfa_login env0 store0 (mfaRequest ''u2'' ''123456'')) = Some t) \<and>
   redirect_token (oauth_callback env0 ''http://localhost:3000'' ''github'' (Some bob))
     = Some ''jwt:u2''"
proof -
  have h: "body_email (loginRequest ''bob@example.com'' ''hunter2'') = Some ''bob@example.com''"
      "body_password (loginRequest ''bob@example.com'' ''hunter2'') = Some ''hunter2''"
      "isEmail env0 ''bob@example.com''" "''hunter2'' \<noteq> []"
      "\<not> throws env0 UserFindUnique"
      "find (\<lambda>u. u_email u = normalizeEmail env0 ''bob@example.com'') (users store0) = Some bob"
      "isActive bob" "mfaEnabled bob" "\<not> isAccountLocked env0 store0 (u_id bob)"
      "bcrypt_compare env0 ''hunter2'' (u_password bob)" "u_id bob = ''u2''"
    by (simp_all add: loginRequest_def env0_def store0_def alice_def bob_def
          isAccountLocked_def failedLogins_def)
  have g: "find (\<lambda>u. Some (u_id u) = body_userId (mfaRequest ''u2'' ''123456'')) (users store0)
             = Some bob"
      "truthy (body_userId (mfaRequest ''u2'' ''123456''))"
      "truthy (body_token (mfaRequest ''u2'' ''123456''))"
      "truthy (mfaSecret bob)"
      "speakeasy_verify env0 (mfaSecret bob) (body_token (mfaRequest ''u2'' ''123456'')) 2"
      "jwt_sign env0 (u_id bob) (u_email bob) (u_role bob) = ''jwt:u2''"
    by (simp_all add: mfaRequest_def env0_def store0_def alice_def bob_def)
  from mfa_user_gets_token_from_mfa_login_only[where E = env0 and s = store0
      and req = "loginRequest ''bob@example.com'' ''hunter2''" and e = "''bob@example.com''"
      and p = "''hunter2''" and user = bob and req' = "mfaRequest ''u2'' ''123456''"
      and user' = bob and oauthUser = bob and frontendUrl = "''http://localhost:3000''"
      and provider = "''github''"] h g
  show ?thesis by simp
qed

text \<open>
  The claim as first stated fails twice.  For every user with \<open>mfaEnabled\<close> and a correct
  password: bob has five recent failures, and his login with the right password is
  answered 423, not MFA-required.  A token only from the endpoint that takes the TOTP
  code: bob, with \<open>mfaEnabled\<close>, comes back from Google and the callback hands him a token,
  no code asked.
\<close>

theorem mfa_login_locked_counterexample:
  "mfaEnabled bob \<and> bcrypt_compare env0 ''hunter2'' (u_password bob) \<and>
   find (\<lambda>u. u_email u = ''bob@example.com'') (users (lockedStore ''u2'')) = Some bob \<and>
   fst (login env0 (lockedStore ''u2'') (loginRequest ''bob@example.com'' ''hunter2''))
     = accountLocked \<and>
   fst (login env0 (lockedStore ''u2'') (loginRequest ''bob@example.com'' ''hunter2''))
     \<noteq> \<lparr>code = 200, body = MfaRequired ''u2''\<rparr> \<and>
   redirect_token (oauth_callback env0 ''http://localhost:3000'' ''google'' (Some bob))
     = Some ''jwt:u2''"
  by (simp add: fst_login loginRequest_def env0_def lockedStore_def store0_def alice_def bob_def
        isAccountLocked_def failedLogins_def failedAttempt_def accountLocked_def
        oauth_callback_def)

text \<open>
  Claim C10.  \<^verbatim>\<open>POST /mfa/login\<close> returns a signed token for any user row with
  \<open>mfaEnabled\<close> and a stored secret whenever the submitted code verifies.  Nothing in the
  premises speaks of \<open>isActive\<close> or of the activity log, and the response is the same for
  every content of the activity log: the handler reads neither.  So an inactive user, or
  one the password login would block, still gets a token.
\<close>

theorem mfa_login_ignores_active_flag_and_lockout:
  assumes "body_userId req = Some userId" "userId \<noteq> []" "body_token req = Some token" "token \<noteq> []"
    and "\<not> throws E UserFindUnique"
    and "find (\<lambda>u. Some (u_id u) = body_userId req) (users s) = Some user"
    and "mfaEnabled user" "mfaSecret user = Some secret" "secret \<noteq> []"
    and "totp_verify E secret token 2"
  shows "mfa_login E s req =
           \<lparr>code = 200, body = LoginData (safeUser user)
                                  (jwt_sign E (u_id user) (u_email user) (u_role user))\<rparr> \<and>
         token_of (mfa_login E s req) = Some (jwt_sign E (u_id user) (u_email user) (u_role user)) \<and>
         (\<forall>logs. mfa_login E (s\<lparr>activityLogs := logs\<rparr>) req = mfa_login E s req)"
proof -
  have "mfa_login E s req =
           \<lparr>code = 200, body = LoginData (safeUser user)
                                  (jwt_sign E (u_id user) (u_email user) (u_role user))\<rparr>"
    using assms by (simp add: mfa_login_def)
  moreover have "mfa_login E (s\<lparr>activityLogs := logs\<rparr>) req = mfa_login E s req" for logs
    by (simp add: mfa_login_def)
  ultimately show ?thesis by simp
qed

theorem mfa_login_ignores_active_flag_and_lockout_witness:
  "\<not> isActive carol \<and> isAccountLocked env0 (lockedStore ''u3'') (u_id carol) \<and>
   code (fst (login env0 (lockedStore ''u3'') (loginRequest ''carol@example.com'' ''pw''))) = 401 \<and>
   token_of (mfa_login env0 (lockedStore ''u3'') (mfaRequest ''u3'' ''123456'')) = Some ''jwt:u3''"
proof -
  have h: "body_userId (mfaRequest ''u3'' ''123456'') = Some ''u3''" "''u3'' \<noteq> []"
      "body_token (mfaRequest ''u3'' ''123456'') = Some ''123456''" "''123456'' \<noteq> []"
      "\<not> throws env0 UserFindUnique"
      "find (\<lambda>u. Some (u_id u) = body_userId (mfaRequest ''u3'' ''123456''))
         (users (lockedStore ''u3'')) = Some carol"
      "mfaEnabled carol" "mfaSecret carol = Some ''JBSWY3DP''" "''JBSWY3DP'' \<noteq> []"
      "totp_verify env0 ''JBSWY3DP'' ''123456'' 2"
    by (simp_all add: mfaRequest_def env0_def lockedStore_def store0_def alice_def bob_def
          carol_def)
  have g: "\<not> isActive carol" "isAccountLocked env0 (lockedStore ''u3'') (u_id carol)"
      "jwt_sign env0 (u_id carol) (u_email carol) (u_role carol) = ''jwt:u3''"
    by (simp_all add: carol_def env0_def isAccountLocked_def failedLogins_def lockedStore_def
          failedAttempt_def)
  have l: "code (fst (login env0 (lockedStore ''u3'') (loginRequest ''carol@example.com'' ''pw''))) = 401"
    by (simp add: fst_login loginRequest_def env0_def lockedStore_def store0_def alice_def
          bob_def carol_def invalidCredentials_def)
  from mfa_login_ignores_active_flag_and_lockout[OF h] g l show ?thesis by simp
qed

subsection \<open>Enabling MFA\<close>

lemma find_enableMfa:
  "find (\<lambda>u. u_id u = userId) us = Some user \<Longrightarrow>
   find (\<lambda>u. u_id u = userId) (enableMfa userId us) = Some (user\<lparr>mfaEnabled := True\<rparr>)"
  by (induction us) (auto simp: enableMfa_def)

text \<open>
  The handler of \<^verbatim>\<open>routes/auth.js\<close> does what is expected of the verify operation: a code
  of another length is refused with 400; for a 6-character code and a stored secret,
  \<open>mfaEnabled\<close> is set exactly when the code verifies, and a failed verification leaves the
  store as it was.
\<close>

lemma mfa_verify_auth_js:
  assumes "body_token req = Some token" "length token = 6"
    and "\<not> throws E UserFindUnique" "\<not> throws E UserUpdate"
    and "find (\<lambda>u. u_id u = userId) (users s) = Some user"
    and "mfaSecret user = Some secret" "secret \<noteq> []"
  shows "mfa_verify E s userId req =
     (if totp_verify E secret token 2
      then (\<lparr>code = 200, body = Message True ''Two-Factor Authentication enabled successfully!''\<rparr>,
            s\<lparr>users := enableMfa userId (users s)\<rparr>)
      else (\<lparr>code = 400, body = Message False ''Invalid or expired code. Please try again.''\<rparr>, s))"
  using assms by (auto simp: mfa_verify_def)

lemma mfa_verify_rejects_other_lengths:
  "body_token req = None \<or> (\<exists>token. body_token req = Some token \<and> length token \<noteq> 6) \<Longrightarrow>
   mfa_verify E s userId req =
     (\<lparr>code = 400, body = Message False ''Please provide a valid 6-digit code''\<rparr>, s)"
  by (auto simp: mfa_verify_def)

lemma mfa_js_verify_store: "snd (mfa_js_verify E s userId req) = s"
  by (simp add: mfa_js_verify_def mfa_js_logActivity_def split: option.split)

text \<open>
  Claim C6 says that the verify operation sets \<open>mfaEnabled\<close> if and only if the code
  verifies.  The handler of \<^verbatim>\<open>routes/mfa.js\<close> never sets it: with a 6-character code that
  verifies against the stored secret, the unbound \<^verbatim>\<open>logActivity\<close> throws before the
  update, the answer is 500 and the user row is what it was.
\<close>

theorem mfa_js_verify_never_enables:
  assumes "body_token req = Some token" "length token = 6"
    and "\<not> throws E UserFindUnique" "\<not> throws E UserUpdate"
    and "find (\<lambda>u. u_id u = userId) (users s) = Some user"
    and "mfaSecret user = Some secret" "secret \<noteq> []"
    and "totp_verify E secret token 6"
  shows "mfa_js_verify E s userId req =
           (\<lparr>code = 500, body = Message False ''Server error during verification''\<rparr>, s) \<and>
         find (\<lambda>u. u_id u = userId) (users (snd (mfa_js_verify E s userId req))) = Some user"
  using assms by (auto simp: mfa_js_verify_def mfa_js_logActivity_def)

theorem mfa_js_verify_never_enables_witness:
  "totp_verify env0 ''JBSWY3DP'' ''123456'' 6 \<and> \<not> mfaEnabled dave \<and>
   mfa_js_verify env0 store0 ''u4'' (mfaRequest ''u4'' ''123456'') =
     (\<lparr>code = 500, body = Message False ''Server error during verification''\<rparr>, store0) \<and>
   find (\<lambda>u. u_id u = ''u4'')
     (users (snd (mfa_js_verify env0 store0 ''u4'' (mfaRequest ''u4'' ''123456'')))) = Some dave \<and>
   fst (mfa_verify env0 store0 ''u4'' (mfaRequest ''u4'' ''123456'')) =
     \<lparr>code = 200, body = Message True ''Two-Factor Authentication enabled successfully!''\<rparr> \<and>
   find (\<lambda>u. u_id u = ''u4'')
     (users (snd (mfa_verify env0 store0 ''u4'' (mfaRequest ''u4'' ''123456''))))
     = Some (dave\<lparr>mfaEnabled := True\<rparr>)"
proof -
  have h: "body_token (mfaRequest ''u4'' ''123456'') = Some ''123456''" "length ''123456'' = 6"
      "\<not> throws env0 UserFindUnique" "\<not> throws env0 UserUpdate"
      "find (\<lambda>u. u_id u = ''u4'') (users store0) = Some dave"
      "mfaSecret dave = Some ''JBSWY3DP''" "''JBSWY3DP'' \<noteq> []"
    by (simp_all add: mfaRequest_def env0_def store0_def alice_def bob_def carol_def dave_def)
  have v: "totp_verify env0 ''JBSWY3DP'' ''123456'' 6" "totp_verify env0 ''JBSWY3DP'' ''123456'' 2"
      "\<not> mfaEnabled dave"
    by (simp_all add: env0_def dave_def)
  from mfa_js_verify_never_enables[OF h v(1)] mfa_verify_auth_js[OF h] v
    find_enableMfa[OF h(5)] h(5)
  show ?thesis by simp
qed

section \<open>The new-device check: what the code guarantees\<close>










end
